theory Spec2Isabelle
  imports Main "HOL-Library.AList"
begin

section \<open>JavaScript values\<close>

text \<open>
  The extension container of falcon-server (ExtensionContainer.ts) works on untyped
  JavaScript objects: configuration bags, request contexts, data sources. They are
  embedded as a datatype of values. An object is the list of its own enumerable
  properties in enumeration order; reading a property takes the first entry of that
  name, and a missing property reads as \<open>undefined\<close>. Properties inherited from
  prototypes and built-in members such as \<open>length\<close> are not part of the model.

  A function value is a reference. \<open>Extern n\<close> is a function supplied from outside the
  container (a data-source method, an initializer, a context function); what a call of
  it does is given by an interpretation that the definitions below take as an argument:
  \<open>callf\<close> gives the result of a call (or what it raises) from the receiver and the
  arguments, and the context handler, which goes on using the object it hands to a
  function, has an interpretation of its own that also gives the objects back as the call
  leaves them. \<open>Bound d f\<close> is the closure that \<open>getExtensionGraphQLConfig\<close> creates for
  the data-source name \<open>d\<close> and the field name \<open>f\<close>.
\<close>

datatype fnref = Extern nat | Bound string string

datatype jsval =
    JUndefined
  | JNull
  | JBool bool
  | JNum int
  | JStr string
  | JArr "jsval list"
  | JObj "(string \<times> jsval) list"
  | JFun fnref

type_synonym jsobject = "(string \<times> jsval) list"

text \<open>What a \<open>throw\<close> (or the rejection of a promise) carries.\<close>

datatype error =
    TypeError
  | Error string
  | Thrown jsval

type_synonym callf = "fnref \<Rightarrow> jsval \<Rightarrow> jsval list \<Rightarrow> error + jsval"

fun js_typeof :: "jsval \<Rightarrow> string" where
  "js_typeof JUndefined = ''undefined''"
| "js_typeof JNull = ''object''"
| "js_typeof (JBool b) = ''boolean''"
| "js_typeof (JNum n) = ''number''"
| "js_typeof (JStr s) = ''string''"
| "js_typeof (JArr xs) = ''object''"
| "js_typeof (JObj ps) = ''object''"
| "js_typeof (JFun f) = ''function''"

fun truthy :: "jsval \<Rightarrow> bool" where
  "truthy JUndefined = False"
| "truthy JNull = False"
| "truthy (JBool b) = b"
| "truthy (JNum n) = (n \<noteq> 0)"
| "truthy (JStr s) = (s \<noteq> [])"
| "truthy (JArr xs) = True"
| "truthy (JObj ps) = True"
| "truthy (JFun f) = True"

fun isArray :: "jsval \<Rightarrow> bool" where
  "isArray (JArr xs) = True"
| "isArray v = False"

text \<open>Decimal notation of an array index, as JavaScript writes it in a property key.\<close>

function string_of_nat :: "nat \<Rightarrow> string" where
  "string_of_nat n =
     (if n < 10 then [char_of (48 + n)]
      else string_of_nat (n div 10) @ [char_of (48 + n mod 10)])"
  by pat_completeness auto
termination
  by (relation "measure id") auto

definition index_keys :: "nat \<Rightarrow> string list" where
  "index_keys n = map string_of_nat [0..<n]"

text \<open>
  The own enumerable string-keyed properties of a value, as \<open>Object.keys\<close>,
  \<open>Object.entries\<close> and \<open>Object.assign\<close> enumerate them: the entries of an object, the
  indices of an array or of a string, nothing for the other values.
\<close>

fun own_props :: "jsval \<Rightarrow> jsobject" where
  "own_props (JObj ps) = ps"
| "own_props (JArr xs) = zip (index_keys (length xs)) xs"
| "own_props (JStr s) = zip (index_keys (length s)) (map (\<lambda>c. JStr [c]) s)"
| "own_props v = []"

definition obj_get :: "jsobject \<Rightarrow> string \<Rightarrow> jsval" where
  "obj_get ps name = (case map_of ps name of Some v \<Rightarrow> v | None \<Rightarrow> JUndefined)"

text \<open>\<open>value[name]\<close>: a TypeError on \<open>undefined\<close> and \<open>null\<close>.\<close>

fun get_member :: "jsval \<Rightarrow> string \<Rightarrow> error + jsval" where
  "get_member JUndefined name = Inl TypeError"
| "get_member JNull name = Inl TypeError"
| "get_member v name = Inr (obj_get (own_props v) name)"

text \<open>\<open>name in value\<close>: a TypeError unless the right operand is an object.\<close>

fun js_in :: "string \<Rightarrow> jsval \<Rightarrow> error + bool" where
  "js_in name (JObj ps) = Inr (name \<in> fst ` set ps)"
| "js_in name (JArr xs) = Inr (name \<in> set (index_keys (length xs)))"
| "js_in name (JFun f) = Inr False"
| "js_in name v = Inl TypeError"

text \<open>\<open>Object.keys(value)\<close> and \<open>Object.entries(value)\<close>: a TypeError on \<open>undefined\<close> and \<open>null\<close>.\<close>

fun object_entries :: "jsval \<Rightarrow> error + jsobject" where
  "object_entries JUndefined = Inl TypeError"
| "object_entries JNull = Inl TypeError"
| "object_entries v = Inr (own_props v)"

text \<open>
  \<open>Object.assign(target, source)\<close> on a target object: every own property of the source is
  written to the target, in the source's order; a property the target has keeps its
  place, a new one goes to the end. A source that is \<open>undefined\<close> or \<open>null\<close> has no
  properties.
\<close>

definition object_assign :: "jsobject \<Rightarrow> jsval \<Rightarrow> jsobject" where
  "object_assign target source =
     foldl (\<lambda>t name. AList.update name (obj_get (own_props source) name) t)
       target (map fst (own_props source))"

text \<open>A call \<open>receiver.f(args)\<close> or \<open>f(args)\<close>: a TypeError when \<open>f\<close> is not a function.\<close>

fun js_call :: "callf \<Rightarrow> jsval \<Rightarrow> jsval \<Rightarrow> jsval list \<Rightarrow> error + jsval" where
  "js_call callf (JFun f) this args = callf f this args"
| "js_call callf v this args = Inl TypeError"

section \<open>Auto-binding of data-source methods\<close>

definition className :: string where
  "className = ''ExtensionContainer''"

text \<open>\<open>getApi\<close> (ExtensionContainer.ts, lines 301-303).\<close>

definition getApi :: "jsval \<Rightarrow> string \<Rightarrow> error + jsval" where
  "getApi dataSources name =
     (case js_in name dataSources of
        Inl e \<Rightarrow> Inl e
      | Inr present \<Rightarrow> if present then get_member dataSources name else Inr JNull)"

text \<open>
  The resolver that \<open>getExtensionGraphQLConfig\<close> binds to \<open>typeName.fieldName\<close> (lines
  272-285). It is an \<open>async\<close> function: \<open>Inl\<close> is the rejection of the promise it
  returns, \<open>Inr\<close> the value the promise resolves to. The test of line 279 is written
  \<open>typeof (dataSource[fieldName] !== 'function')\<close>: the comparison is made first and
  \<open>typeof\<close> is taken of its boolean result.
\<close>

definition resolver ::
  "callf \<Rightarrow> string \<Rightarrow> string \<Rightarrow> jsval \<Rightarrow> jsval \<Rightarrow> jsval \<Rightarrow> jsval \<Rightarrow> error + jsval" where
  "resolver callf dataSourceName fieldName obj args ctx info =
     (case get_member ctx ''dataSources'' of
        Inl e \<Rightarrow> Inl e
      | Inr sources \<Rightarrow>
          (case getApi sources dataSourceName of
             Inl e \<Rightarrow> Inl e
           | Inr dataSource \<Rightarrow>
               (case get_member dataSource fieldName of
                  Inl e \<Rightarrow> Inl e
                | Inr member \<Rightarrow>
                    if truthy (JStr (js_typeof (JBool (member \<noteq> JStr ''function''))))
                    then Inl (Error (className @ '': '' @ dataSourceName @ ''.'' @ fieldName
                                      @ ''() resolver method is not defined!''))
                    else js_call callf member dataSource [obj, args, ctx, info])))"


definition nth_arg :: "jsval list \<Rightarrow> nat \<Rightarrow> jsval" where
  "nth_arg args i = (if i < length args then args ! i else JUndefined)"

text \<open>
  Calling a function value found in a configuration: a bound closure runs \<open>resolver\<close>
  on its first four arguments, an external function is interpreted by \<open>callf\<close>.
\<close>

fun invoke :: "callf \<Rightarrow> jsval \<Rightarrow> jsval list \<Rightarrow> error + jsval" where
  "invoke callf (JFun (Bound d f)) args =
     resolver callf d f (nth_arg args 0) (nth_arg args 1) (nth_arg args 2) (nth_arg args 3)"
| "invoke callf (JFun (Extern n)) args = callf (Extern n) JUndefined args"
| "invoke callf v args = Inl TypeError"

definition bind_fields :: "string \<Rightarrow> string list \<Rightarrow> jsobject" where
  "bind_fields dataSourceName fieldNames =
     foldl (\<lambda>m fieldName. AList.update fieldName (JFun (Bound dataSourceName fieldName)) m)
       [] fieldNames"

definition fields_of :: "(string \<times> string list) list \<Rightarrow> string \<Rightarrow> string list" where
  "fields_of rootTypes typeName =
     (case map_of rootTypes typeName of Some fs \<Rightarrow> fs | None \<Rightarrow> [])"

text \<open>
  \<open>getExtensionGraphQLConfig\<close> (lines 253-293). \<open>getRootTypeFields\<close> is imported from
  \<open>../graphqlUtils/schema\<close>, outside ExtensionContainer.ts: it is an argument here,
  giving for a schema text the field names of each root type.
\<close>

definition getExtensionGraphQLConfig ::
  "(jsval \<Rightarrow> (string \<times> string list) list) \<Rightarrow> jsval \<Rightarrow> string \<Rightarrow> jsval" where
  "getExtensionGraphQLConfig getRootTypeFields typeDefs dataSourceName =
     (if \<not> truthy typeDefs then JUndefined
      else
        let rootTypes = getRootTypeFields typeDefs;
            resolvers =
              foldl (\<lambda>r typeName.
                       AList.update typeName
                         (JObj (bind_fields dataSourceName (fields_of rootTypes typeName))) r)
                [] (map fst rootTypes)
        in JObj [(''schema'', if isArray typeDefs then typeDefs else JArr [typeDefs]),
                 (''resolvers'', JObj resolvers)])"

section \<open>Backend-config aggregation\<close>

text \<open>
  Modelled from the spec: \<open>RemoteBackendConfig\<close> and \<open>BackendConfig\<close> are declared in
  \<open>@deity/falcon-server-env\<close> and \<open>../types\<close>, outside ExtensionContainer.ts.
  The spec describes them as an "externally supplied per-provider config (locale list,
  etc.)" and its reduced result; \<open>mergeBackendConfigs\<close> reads the one property
  \<open>locales\<close>, a list of strings when it is an array. \<open>None\<close> is a \<open>locales\<close> that is not
  an array; \<open>extras\<close> holds the other properties.
\<close>

record remote_config =
  locales :: "string list option"
  extras :: jsobject

type_synonym fetchf = "fnref \<Rightarrow> jsval \<Rightarrow> jsval list \<Rightarrow> error + remote_config option"

text \<open>\<open>Array.prototype.indexOf\<close> on strings: the first position, or -1.\<close>

primrec indexOf :: "string list \<Rightarrow> string \<Rightarrow> int" where
  "indexOf [] x = - 1"
| "indexOf (y # ys) x =
     (if y = x then 0 else (let i = indexOf ys x in if i < 0 then - 1 else i + 1))"

text \<open>
  The callback of the \<open>reduce\<close> in \<open>mergeBackendConfigs\<close> (lines 100-123); a falsy
  \<open>current\<close> is \<open>None\<close>.
\<close>

definition mergeStep :: "remote_config \<Rightarrow> remote_config option \<Rightarrow> remote_config" where
  "mergeStep prev current =
     (case current of
        None \<Rightarrow> prev
      | Some cur \<Rightarrow>
          (let prevLocales = locales prev;
               currLocales = locales cur;
               mergedLocales =
                 (case (currLocales, prevLocales) of
                    (Some c, Some p) \<Rightarrow> Some (filter (\<lambda>loc. indexOf p loc \<ge> 0) c)
                  | (Some c, None) \<Rightarrow> currLocales
                  | (None, p) \<Rightarrow> prevLocales)
           in \<lparr>locales = mergedLocales, extras = []\<rparr>))"

definition mergeBackendConfigs :: "remote_config option list \<Rightarrow> remote_config" where
  "mergeBackendConfigs configs = foldl mergeStep \<lparr>locales = None, extras = []\<rparr> configs"

text \<open>
  The loop of \<open>fetchBackendConfig\<close> (lines 79-91) over the entries of
  \<open>context.dataSources\<close>; \<open>fetchf\<close> interprets a call of a data source's
  \<open>fetchBackendConfig\<close> method. \<open>Inr None\<close> is the bare \<open>return\<close> of line 82.
\<close>

fun fetchLoop ::
  "fetchf \<Rightarrow> jsval list \<Rightarrow> jsobject \<Rightarrow> remote_config option list
     \<Rightarrow> error + remote_config option" where
  "fetchLoop fetchf arguments [] configs = Inr (Some (mergeBackendConfigs configs))"
| "fetchLoop fetchf arguments ((apiName, api) # rest) configs =
     (case get_member api ''fetchBackendConfig'' of
        Inl e \<Rightarrow> Inl e
      | Inr member \<Rightarrow>
          if js_typeof member \<noteq> ''function'' then Inr None
          else
            (case member of
               JFun f \<Rightarrow>
                 (case fetchf f api arguments of
                    Inl e \<Rightarrow> Inl e
                  | Inr apiConfig \<Rightarrow>
                      fetchLoop fetchf arguments rest
                        (case apiConfig of
                           Some c \<Rightarrow> configs @ [Some c]
                         | None \<Rightarrow> configs))
             | _ \<Rightarrow> Inl TypeError))"

definition fetchBackendConfig ::
  "fetchf \<Rightarrow> jsval \<Rightarrow> jsval \<Rightarrow> jsval \<Rightarrow> jsval \<Rightarrow> error + remote_config option" where
  "fetchBackendConfig fetchf obj args ctx info =
     (case get_member ctx ''dataSources'' of
        Inl e \<Rightarrow> Inl e
      | Inr sources \<Rightarrow>
          (case object_entries sources of
             Inl e \<Rightarrow> Inl e
           | Inr entries \<Rightarrow> fetchLoop fetchf [obj, args, ctx, info] entries []))"


section \<open>Merging configurations\<close>

text \<open>
  \<open>GraphQLConfigDefaults\<close> (lines 23-27), with the properties the container reads or
  writes; \<open>None\<close> is a property that is not there. \<open>resolvers\<close> of a base configuration
  is a single resolver map or an array of them, so it is a value. The property
  \<open>context\<close> is named \<open>contextOpt\<close>.
\<close>

record graphql_config =
  schemas :: "jsval list option"
  contextModifiers :: "jsval list option"
  resolvers :: "jsval option"
  contextOpt :: "jsval option"
  dataSources :: "jsobject option"
  schemaDirectives :: "jsval option"

text \<open>The warnings of \<open>Logger.warn\<close>, by what they report; debug messages are left out.\<close>

datatype warning =
    NonStringSchema string string jsval
  | UnsupportedOption string string
  | MissingSchemaFile string string

type_synonym merge_state = "graphql_config \<times> warning list"

definition valueArray_of :: "jsval \<Rightarrow> jsval list" where
  "valueArray_of v = (case v of JArr xs \<Rightarrow> xs | _ \<Rightarrow> [v])"

text \<open>
  The callback of the \<open>forEach\<close> in \<open>mergeGraphQLConfig\<close> (lines 181-221) for one
  property name of the source. \<open>push\<close> on a property that is not an array and
  \<open>Object.assign\<close> on a target that is \<open>undefined\<close> raise a TypeError.
\<close>

definition mergeKey ::
  "string \<Rightarrow> jsval \<Rightarrow> string \<Rightarrow> merge_state \<Rightarrow> error + merge_state" where
  "mergeKey extensionName source name st =
     (let dest = fst st; logs = snd st; v = obj_get (own_props source) name in
      if name = [] \<or> js_typeof v = ''undefined'' then Inr (dest, logs)
      else
        let valueArray = valueArray_of v in
        if name = ''schema'' \<or> name = ''schemas'' then
          (let logs' = logs @ map (NonStringSchema extensionName name)
                                (filter (\<lambda>schemaItem. js_typeof schemaItem \<noteq> ''string'')
                                   valueArray)
           in case schemas dest of
                None \<Rightarrow> Inl TypeError
              | Some ss \<Rightarrow> Inr (dest\<lparr>schemas := Some (ss @ valueArray)\<rparr>, logs'))
        else if name = ''resolvers'' then
          (case resolvers dest of
             Some (JArr rs) \<Rightarrow> Inr (dest\<lparr>resolvers := Some (JArr (rs @ valueArray))\<rparr>, logs)
           | _ \<Rightarrow> Inl TypeError)
        else if name = ''context'' then
          (case contextModifiers dest of
             None \<Rightarrow> Inl TypeError
           | Some ms \<Rightarrow> Inr (dest\<lparr>contextModifiers := Some (ms @ [v])\<rparr>, logs))
        else if name = ''dataSources'' then
          (case dataSources dest of
             None \<Rightarrow> Inl TypeError
           | Some ds \<Rightarrow> Inr (dest\<lparr>dataSources := Some (object_assign ds v)\<rparr>, logs))
        else Inr (dest, logs @ [UnsupportedOption extensionName name]))"

fun mergeKeys ::
  "string \<Rightarrow> jsval \<Rightarrow> string list \<Rightarrow> merge_state \<Rightarrow> error + merge_state" where
  "mergeKeys extensionName source [] st = Inr st"
| "mergeKeys extensionName source (name # names) st =
     (case mergeKey extensionName source name st of
        Inl e \<Rightarrow> Inl e
      | Inr st' \<Rightarrow> mergeKeys extensionName source names st')"

definition mergeGraphQLConfig ::
  "merge_state \<Rightarrow> jsval \<Rightarrow> string \<Rightarrow> error + merge_state" where
  "mergeGraphQLConfig st source extensionName =
     (case object_entries source of
        Inl e \<Rightarrow> Inl e
      | Inr ps \<Rightarrow> mergeKeys extensionName source (map fst ps) st)"

section \<open>Building the server configuration\<close>

text \<open>The \<open>Object.assign\<close> of \<open>createGraphQLConfig\<close> (lines 132-143).\<close>

definition seedConfig :: "graphql_config \<Rightarrow> graphql_config" where
  "seedConfig defaultConfig =
     defaultConfig
       \<lparr>schemas := Some (case schemas defaultConfig of None \<Rightarrow> [] | Some ss \<Rightarrow> ss),
        contextModifiers :=
          Some (case contextModifiers defaultConfig of
                  Some ms \<Rightarrow> ms
                | None \<Rightarrow>
                    (case contextOpt defaultConfig of
                       None \<Rightarrow> []
                     | Some c \<Rightarrow> if truthy c then [c] else [])),
        resolvers :=
          Some (JArr (case resolvers defaultConfig of
                        None \<Rightarrow> []
                      | Some r \<Rightarrow> if truthy r \<and> \<not> isArray r then [r] else []))\<rparr>"

text \<open>
  The registry \<open>entries\<close> (line 35) is a \<open>Map\<close>: a list of pairs in insertion order,
  where \<open>set\<close> on a key that is there replaces the value in place and \<open>set\<close> on a new
  key appends.
\<close>

type_synonym registry = "(string \<times> jsval) list"


text \<open>The loop over the registry (lines 145-147).\<close>

fun mergeEntries :: "registry \<Rightarrow> merge_state \<Rightarrow> error + merge_state" where
  "mergeEntries [] st = Inr st"
| "mergeEntries ((extName, extConfig) # rest) st =
     (case mergeGraphQLConfig st extConfig extName of
        Inl e \<Rightarrow> Inl e
      | Inr st' \<Rightarrow> mergeEntries rest st')"

text \<open>
  The aggregate of one build (lines 132-147), from the base configuration as it is when
  the build starts. What the build leaves in the caller's base is \<open>base_after\<close> below.
\<close>

definition aggregate :: "graphql_config \<Rightarrow> registry \<Rightarrow> error + merge_state" where
  "aggregate defaultConfig entries = mergeEntries entries (seedConfig defaultConfig, [])"

text \<open>
  The context handler (lines 151-157): the \<open>forEach\<close> over the modifiers, with the
  context built so far as state. A modifier that is a function is handed the request
  argument and the context object itself (line 154), and what it returns is assigned to
  that same object afterwards; so what the call writes into the context, or into the
  request, stays. A call of a function modifier is interpreted by \<open>callm\<close>: from the world
  outside the container, the request and the context as they are when the call is made,
  it gives the same three as the call leaves them and the value returned.
\<close>

type_synonym 'w modifierf =
  "'w \<Rightarrow> fnref \<Rightarrow> jsval \<Rightarrow> jsobject \<Rightarrow> error + ('w \<times> jsval \<times> jsobject \<times> jsval)"

fun applyModifiers ::
  "'w modifierf \<Rightarrow> jsval list \<Rightarrow> 'w \<times> jsval \<times> jsobject \<Rightarrow> error + ('w \<times> jsval \<times> jsobject)" where
  "applyModifiers callm [] st = Inr st"
| "applyModifiers callm (modifier # rest) (w, arg, ctx) =
     (if js_typeof modifier = ''function'' then
        (case modifier of
           JFun f \<Rightarrow>
             (case callm w f arg ctx of
                Inl e \<Rightarrow> Inl e
              | Inr (w', arg', ctx', r) \<Rightarrow>
                  applyModifiers callm rest (w', arg', object_assign ctx' r))
         | _ \<Rightarrow> Inl TypeError)
      else applyModifiers callm rest (w, arg, object_assign ctx modifier))"

text \<open>
  The handler returns the context; the result here is the context together with the
  world and the request as the handler leaves them.
\<close>

definition contextHandler ::
  "'w modifierf \<Rightarrow> jsval list option \<Rightarrow> 'w \<Rightarrow> jsval \<Rightarrow> error + ('w \<times> jsval \<times> jsobject)" where
  "contextHandler callm modifiers w arg =
     (case modifiers of
        None \<Rightarrow> Inl TypeError
      | Some ms \<Rightarrow> applyModifiers callm ms (w, arg, []))"

text \<open>
  What \<open>createGraphQLConfig\<close> returns (lines 159-175): the bookkeeping properties are
  deleted, \<open>schema\<close> is the stitched schema and \<open>context\<close> is the handler, a closure
  given here by the modifiers it has captured.
\<close>

record server_config =
  schema :: jsval
  contextFn :: "jsval list option"
  serverDataSources :: "jsobject option"
  serverSchemaDirectives :: "jsval option"

text \<open>
  \<open>makeExecutableSchema\<close> and \<open>mergeSchemas\<close> belong to the library graphql-tools; they
  are arguments.
\<close>

definition createGraphQLConfig ::
  "(jsval list option \<Rightarrow> jsval option \<Rightarrow> error + jsval)
     \<Rightarrow> (jsval list \<Rightarrow> jsval option \<Rightarrow> jsval option \<Rightarrow> error + jsval)
     \<Rightarrow> registry \<Rightarrow> graphql_config \<Rightarrow> error + (server_config \<times> warning list)" where
  "createGraphQLConfig makeExecutableSchema mergeSchemas entries defaultConfig =
     (case aggregate defaultConfig entries of
        Inl e \<Rightarrow> Inl e
      | Inr (config, logs) \<Rightarrow>
          (case makeExecutableSchema (schemas config) (resolvers config) of
             Inl e \<Rightarrow> Inl e
           | Inr executable \<Rightarrow>
               (case mergeSchemas [executable] (schemaDirectives config) (resolvers config) of
                  Inl e \<Rightarrow> Inl e
                | Inr stitched \<Rightarrow>
                    Inr (\<lparr>schema = stitched,
                          contextFn = contextModifiers config,
                          serverDataSources = dataSources config,
                          serverSchemaDirectives = schemaDirectives config\<rparr>, logs))))"


section \<open>Registering extensions\<close>

text \<open>
  Modelled from the spec: \<open>ExtensionEntryMap\<close> is declared in \<open>../types\<close>, outside
  ExtensionContainer.ts. The spec gives an entry a "package/module reference (opaque
  locator)" and a "configuration object (arbitrary key-value)", of which the container
  reads \<open>api\<close>, the data-source name. A name that
  is missing is \<open>undefined\<close>, whose property key is the string \<open>undefined\<close>.
\<close>

record extension_config =
  api :: "string option"
  options :: jsobject

record extension_entry =
  package :: string
  config :: "extension_config option"

text \<open>
  What the container takes from its surroundings: \<open>importModule\<close> and the event emitter of
  \<open>BaseContainer\<close>, the file system and module resolution of Node, the library
  deepmerge, and \<open>getRootTypeFields\<close>. \<open>None\<close> from \<open>requireResolve\<close> or \<open>readFile\<close> is a
  call that throws; \<open>None\<close> from \<open>importModule\<close> is a module without an initializer;
  \<open>Some e\<close> from \<open>emitAsync\<close> is a listener that rejects.
\<close>

record host =
  importModule :: "string \<Rightarrow> (extension_config \<Rightarrow> error + jsval) option"
  requireResolve :: "string \<Rightarrow> string option"
  readFile :: "string \<Rightarrow> string option"
  pathJoin :: "string \<Rightarrow> string \<Rightarrow> string"
  cwd :: string
  deepMerge :: "jsval \<Rightarrow> jsval \<Rightarrow> jsval"
  getRootTypeFields :: "jsval \<Rightarrow> (string \<times> string list) list"
  emitAsync :: "string \<Rightarrow> jsval \<Rightarrow> error option"








section \<open>What the specification says\<close>

text \<open>
  The spec's account of the context builder: the modifiers are merged one after the
  other onto the empty object, a function modifier being called with the request and
  the context so far and its return value merged onto that context, an object modifier
  being merged as it is.
\<close>

definition modifier_result ::
  "'w modifierf \<Rightarrow> 'w \<Rightarrow> jsval \<Rightarrow> jsobject \<Rightarrow> jsval
     \<Rightarrow> error + ('w \<times> jsval \<times> jsobject \<times> jsval)" where
  "modifier_result callm w request contextSoFar m =
     (case m of
        JFun f \<Rightarrow> callm w f request contextSoFar
      | _ \<Rightarrow> Inr (w, request, contextSoFar, m))"

definition spec_merge_onto ::
  "'w modifierf \<Rightarrow> error + ('w \<times> jsval \<times> jsobject) \<Rightarrow> jsval
     \<Rightarrow> error + ('w \<times> jsval \<times> jsobject)" where
  "spec_merge_onto callm acc m =
     (case acc of
        Inl e \<Rightarrow> Inl e
      | Inr (w, request, contextSoFar) \<Rightarrow>
          (case modifier_result callm w request contextSoFar m of
             Inl e \<Rightarrow> Inl e
           | Inr (w', request', written, r) \<Rightarrow>
               Inr (w', request', object_assign contextSoFar r)))"

definition spec_context ::
  "'w modifierf \<Rightarrow> jsval list \<Rightarrow> 'w \<Rightarrow> jsval \<Rightarrow> error + ('w \<times> jsval \<times> jsobject)" where
  "spec_context callm modifiers w request =
     foldl (spec_merge_onto callm) (Inr (w, request, [])) modifiers"

text \<open>
  A function modifier that writes the property \<open>x\<close> into the context it is handed and
  returns nothing: \<open>(arg, ctx) => { ctx.x = 1; }\<close>.
\<close>

definition writing_modifier :: "unit modifierf" where
  "writing_modifier w f arg ctx = Inr (w, arg, AList.update ''x'' (JNum 1) ctx, JUndefined)"



text \<open>The property names for which \<open>mergeGraphQLConfig\<close> has a merge rule.\<close>

definition recognised :: "string \<Rightarrow> bool" where
  "recognised name =
     (name = ''schema'' \<or> name = ''schemas'' \<or> name = ''resolvers'' \<or> name = ''context''
      \<or> name = ''dataSources'')"

text \<open>The schema fragments of the base configuration itself.\<close>

definition base_schemas :: "graphql_config \<Rightarrow> jsval list" where
  "base_schemas defaultConfig = (case schemas defaultConfig of None \<Rightarrow> [] | Some ss \<Rightarrow> ss)"


text \<open>The configuration of a merge's result, without the warnings.\<close>

definition merged_config :: "error + merge_state \<Rightarrow> error + graphql_config" where
  "merged_config r = (case r of Inl e \<Rightarrow> Inl e | Inr st \<Rightarrow> Inr (fst st))"

text \<open>A source object without one of its properties.\<close>

definition without_key :: "string \<Rightarrow> jsval \<Rightarrow> jsval" where
  "without_key name source = JObj (filter (\<lambda>p. fst p \<noteq> name) (own_props source))"










section \<open>Properties\<close>

subsection \<open>The bound resolver\<close>

text \<open>
  C1. The claim is that the resolver bound to a root-type field forwards its four
  arguments to the data source's method of the same name and returns that method's
  result. The code does not: whenever the request context holds the data source and
  the data source holds a function under the field name, whatever a call of that
  function would return, the resolver rejects with the error "resolver method is not
  defined". The test of line 279 takes \<open>typeof\<close> of a comparison, which is the
  non-empty string \<open>boolean\<close>, so the \<open>throw\<close> is always taken.
\<close>

theorem resolver_rejects_bound_method:
  assumes "get_member ctx ''dataSources'' = Inr sources"
    and "getApi sources dataSourceName = Inr dataSource"
    and "get_member dataSource fieldName = Inr (JFun m)"
  shows "resolver callf dataSourceName fieldName obj args ctx info =
           Inl (Error (className @ '': '' @ dataSourceName @ ''.'' @ fieldName
                        @ ''() resolver method is not defined!''))"
  using assms by (simp add: resolver_def)

theorem resolver_rejects_bound_method_witness:
  "invoke (\<lambda>f this as. Inr (JStr ''bar''))
     (obj_get (own_props (obj_get (own_props (obj_get (own_props
        (getExtensionGraphQLConfig (\<lambda>t. [(''Query'', [''foo''])])
           (JStr ''type Query { foo: String }'') ''X'')) ''resolvers'')) ''Query'')) ''foo'')
     [JNull, JObj [],
      JObj [(''dataSources'', JObj [(''X'', JObj [(''foo'', JFun (Extern 0))])])],
      JObj []]
   = Inl (Error ''ExtensionContainer: X.foo() resolver method is not defined!'')"
  using resolver_rejects_bound_method
    [of "JObj [(''dataSources'', JObj [(''X'', JObj [(''foo'', JFun (Extern 0))])])]"
        "JObj [(''X'', JObj [(''foo'', JFun (Extern 0))])]" "''X''"
        "JObj [(''foo'', JFun (Extern 0))]" "''foo''" "Extern 0"
        "\<lambda>f this as. Inr (JStr ''bar'')" JNull "JObj []" "JObj []"]
  by (simp add: getExtensionGraphQLConfig_def bind_fields_def fields_of_def obj_get_def
      getApi_def nth_arg_def className_def)

text \<open>
  C2. The claim is that the resolver resolves quietly to null when no data source is
  registered under the bound name. The code does not: \<open>getApi\<close> returns \<open>null\<close> for the
  missing name and the resolver reads the field off that \<open>null\<close> without a guard, so
  the resolver rejects with a TypeError.
\<close>

theorem resolver_rejects_missing_source:
  assumes "get_member ctx ''dataSources'' = Inr sources"
    and "js_in dataSourceName sources = Inr False"
  shows "resolver callf dataSourceName fieldName obj args ctx info = Inl TypeError"
  using assms by (simp add: resolver_def getApi_def)

theorem resolver_rejects_missing_source_witness:
  "resolver (\<lambda>f this as. Inr (JStr ''bar'')) ''X'' ''foo'' JNull (JObj [])
     (JObj [(''dataSources'', JObj [])]) (JObj [])
     = Inl TypeError"
  using resolver_rejects_missing_source
    [of "JObj [(''dataSources'', JObj [])]" "JObj []" "''X''"
        "\<lambda>f this as. Inr (JStr ''bar'')" "''foo''" JNull "JObj []" "JObj []"]
  by (simp add: obj_get_def)

subsection \<open>Seeding the aggregate\<close>

text \<open>
  C3. The claim is that the base configuration's resolvers are carried into the
  aggregate whether they are given as one map or as an array. The code carries the
  single map, as a one-element array, and drops the array: for every base
  configuration whose \<open>resolvers\<close> is an array, the seeded \<open>resolvers\<close> is empty, and so
  is that of the aggregate built from it. The rest of the seeding is as claimed: a
  context function of the base is the first context modifier and the base's schema
  fragments are the first fragments.
\<close>

theorem seedConfig_drops_resolver_array:
  "resolvers (seedConfig (defaultConfig\<lparr>resolvers := Some (JArr maps)\<rparr>)) = Some (JArr [])
   \<and> resolvers (seedConfig (defaultConfig\<lparr>resolvers := Some (JObj m)\<rparr>))
       = Some (JArr [JObj m])
   \<and> contextModifiers
        (seedConfig (defaultConfig\<lparr>contextModifiers := None, contextOpt := Some (JFun f)\<rparr>))
       = Some [JFun f]
   \<and> schemas (seedConfig defaultConfig) = Some (base_schemas defaultConfig)
   \<and> aggregate (defaultConfig\<lparr>resolvers := Some (JArr maps)\<rparr>) []
       = Inr (seedConfig (defaultConfig\<lparr>resolvers := Some (JArr maps)\<rparr>), [])"
  by (simp add: seedConfig_def base_schemas_def aggregate_def)

subsection \<open>Backend-config aggregation\<close>


lemma indexOf_lower: "indexOf ys x \<ge> - 1"
  by (induction ys) (auto simp: Let_def)

lemma mergeStep_extras: "extras (mergeStep prev (Some c)) = []"
  by (simp add: mergeStep_def Let_def)




lemma fetchLoop_never_partial:
  assumes "\<exists>p \<in> set entries. \<forall>f. get_member (snd p) ''fetchBackendConfig'' \<noteq> Inr (JFun f)"
  shows "fetchLoop fetchf arguments entries configs \<noteq> Inr (Some c)"
  using assms
proof (induction entries arbitrary: configs)
  case Nil
  then show ?case by simp
next
  case (Cons p entries)
  obtain apiName api where p: "p = (apiName, api)" by (cases p)
  show ?case
  proof (cases "\<forall>f. get_member api ''fetchBackendConfig'' \<noteq> Inr (JFun f)")
    case True
    then show ?thesis
      by (cases "get_member api ''fetchBackendConfig''")
         (auto simp: p split: jsval.splits)
  next
    case False
    with Cons.prems p have "\<exists>p \<in> set entries. \<forall>f. get_member (snd p) ''fetchBackendConfig'' \<noteq> Inr (JFun f)"
      by auto
    from Cons.IH [OF this] show ?thesis
      by (auto simp: p split: sum.splits jsval.splits option.splits)
  qed
qed

lemma fetchLoop_undefined:
  assumes "\<exists>p \<in> set entries. \<forall>f. get_member (snd p) ''fetchBackendConfig'' \<noteq> Inr (JFun f)"
    and "\<forall>p \<in> set entries. snd p \<noteq> JUndefined \<and> snd p \<noteq> JNull
           \<and> (\<forall>f. get_member (snd p) ''fetchBackendConfig'' = Inr (JFun f)
                 \<longrightarrow> (\<exists>r. fetchf f (snd p) arguments = Inr r))"
  shows "fetchLoop fetchf arguments entries configs = Inr None"
  using assms
proof (induction entries arbitrary: configs)
  case Nil
  then show ?case by simp
next
  case (Cons p entries)
  obtain apiName api where p: "p = (apiName, api)" by (cases p)
  from Cons.prems(2) p have nn: "api \<noteq> JUndefined" "api \<noteq> JNull" by auto
  then obtain member where mem: "get_member api ''fetchBackendConfig'' = Inr member"
    by (cases api) auto
  show ?case
  proof (cases member)
    case (JFun f)
    with mem Cons.prems(2) p obtain r where r: "fetchf f api arguments = Inr r" by auto
    from JFun mem Cons.prems(1) p
    have ex: "\<exists>p \<in> set entries. \<forall>f. get_member (snd p) ''fetchBackendConfig'' \<noteq> Inr (JFun f)"
      by auto
    from Cons.prems(2) have all: "\<forall>p \<in> set entries. snd p \<noteq> JUndefined \<and> snd p \<noteq> JNull
           \<and> (\<forall>f. get_member (snd p) ''fetchBackendConfig'' = Inr (JFun f)
                 \<longrightarrow> (\<exists>r. fetchf f (snd p) arguments = Inr r))" by simp
    from Cons.IH [OF ex all] show ?thesis
      by (simp add: p mem JFun r)
  qed (simp_all add: p mem)
qed

text \<open>
  C5. When some data source of the request context has no function under
  \<open>fetchBackendConfig\<close>, the resolver never returns a merged configuration, whatever the
  other data sources return. When moreover no data source is \<open>null\<close> or \<open>undefined\<close> and
  no call of a \<open>fetchBackendConfig\<close> method raises, the resolver returns nothing at all
  (the bare \<open>return\<close>).
\<close>

theorem fetchBackendConfig_fail_fast:
  assumes "get_member ctx ''dataSources'' = Inr sources"
    and "object_entries sources = Inr entries"
    and "\<exists>p \<in> set entries. \<forall>f. get_member (snd p) ''fetchBackendConfig'' \<noteq> Inr (JFun f)"
  shows "(\<forall>c. fetchBackendConfig fetchf obj args ctx info \<noteq> Inr (Some c))
       \<and> ((\<forall>p \<in> set entries. snd p \<noteq> JUndefined \<and> snd p \<noteq> JNull
              \<and> (\<forall>f. get_member (snd p) ''fetchBackendConfig'' = Inr (JFun f)
                    \<longrightarrow> (\<exists>r. fetchf f (snd p) [obj, args, ctx, info] = Inr r)))
            \<longrightarrow> fetchBackendConfig fetchf obj args ctx info = Inr None)"
  using assms fetchLoop_never_partial [OF assms(3)] fetchLoop_undefined [OF assms(3)]
  by (simp add: fetchBackendConfig_def)

theorem fetchBackendConfig_fail_fast_witness:
  "fetchBackendConfig (\<lambda>f this as. Inr (Some \<lparr>locales = Some [''en''], extras = []\<rparr>))
     JNull JNull
     (JObj [(''dataSources'',
             JObj [(''shop'', JObj [(''fetchBackendConfig'', JFun (Extern 0))]),
                   (''blog'', JObj [])])])
     JNull = Inr None"
  using fetchBackendConfig_fail_fast
    [of "JObj [(''dataSources'',
             JObj [(''shop'', JObj [(''fetchBackendConfig'', JFun (Extern 0))]),
                   (''blog'', JObj [])])]"
        "JObj [(''shop'', JObj [(''fetchBackendConfig'', JFun (Extern 0))]),
                   (''blog'', JObj [])]"
        "[(''shop'', JObj [(''fetchBackendConfig'', JFun (Extern 0))]),
                   (''blog'', JObj [])]"
        "\<lambda>f this as. Inr (Some \<lparr>locales = Some [''en''], extras = []\<rparr>)"
        JNull JNull JNull]
  by (simp add: obj_get_def)

subsection \<open>The context handler\<close>

lemma js_typeof_function: "(js_typeof v = ''function'') = (\<exists>f. v = JFun f)"
  by (cases v) auto

lemma map_of_update_fold:
  "map_of (foldl (\<lambda>t name. AList.update name (g name) t) t names) k =
     (if k \<in> set names then Some (g k) else map_of t k)"
  by (induction names arbitrary: t) (simp_all add: update_conv')

lemma obj_get_present: "k \<in> fst ` set ps \<Longrightarrow> Some (obj_get ps k) = map_of ps k"
  by (cases "map_of ps k") (auto simp: obj_get_def map_of_eq_None_iff)

lemma map_of_object_assign:
  "map_of (object_assign target source) k =
     (if k \<in> fst ` set (own_props source) then map_of (own_props source) k
      else map_of target k)"
  by (simp add: object_assign_def map_of_update_fold obj_get_present)

lemma spec_merge_onto_raised: "spec_merge_onto callm (Inl e) m = Inl e"
  by (simp add: spec_merge_onto_def)

lemma spec_merge_onto_Inl: "foldl (spec_merge_onto callm) (Inl e) ms = Inl e"
  by (induction ms) (simp_all add: spec_merge_onto_raised)

lemma spec_merge_onto_literal:
  "js_typeof m \<noteq> ''function'' \<Longrightarrow>
     spec_merge_onto callm (Inr (w, request, ctx)) m = Inr (w, request, object_assign ctx m)"
  by (cases m) (simp_all add: spec_merge_onto_def modifier_result_def)

lemma spec_merge_onto_function:
  "spec_merge_onto callm (Inr (w, request, ctx)) (JFun f) =
     (case callm w f request ctx of
        Inl e \<Rightarrow> Inl e
      | Inr (w', request', written, r) \<Rightarrow> Inr (w', request', object_assign ctx r))"
  by (simp add: spec_merge_onto_def modifier_result_def)

lemma applyModifiers_foldl:
  assumes "\<forall>f w a c w' a' c' r.
             JFun f \<in> set ms \<and> callm w f a c = Inr (w', a', c', r) \<longrightarrow> c' = c"
  shows "applyModifiers callm ms st = foldl (spec_merge_onto callm) (Inr st) ms"
  using assms
proof (induction ms arbitrary: st)
  case Nil
  show ?case by simp
next
  case (Cons m ms)
  obtain w request ctx where st: "st = (w, request, ctx)" by (cases st)
  have rest: "\<forall>f w a c w' a' c' r.
             JFun f \<in> set ms \<and> callm w f a c = Inr (w', a', c', r) \<longrightarrow> c' = c"
  proof (intro allI impI)
    fix f w a c w' a' c' r
    assume "JFun f \<in> set ms \<and> callm w f a c = Inr (w', a', c', r)"
    then have "JFun f \<in> set (m # ms) \<and> callm w f a c = Inr (w', a', c', r)" by simp
    with Cons.prems show "c' = c" by blast
  qed
  show ?case
  proof (cases "\<exists>f. m = JFun f")
    case True
    then obtain f where m: "m = JFun f" by blast
    show ?thesis
    proof (cases "callm w f request ctx")
      case (Inl e)
      then show ?thesis
        by (simp add: st m spec_merge_onto_function spec_merge_onto_Inl)
    next
      case (Inr res)
      obtain w' request' written r where res: "res = (w', request', written, r)"
        by (cases res)
      have "JFun f \<in> set (m # ms) \<and> callm w f request ctx = Inr (w', request', written, r)"
        using m Inr res by simp
      with Cons.prems have "written = ctx" by blast
      with Inr res Cons.IH [OF rest] show ?thesis
        by (simp add: st m spec_merge_onto_function)
    qed
  next
    case False
    then have nf: "js_typeof m \<noteq> ''function''" by (simp add: js_typeof_function)
    with Cons.IH [OF rest] show ?thesis
      by (simp add: st spec_merge_onto_literal)
  qed
qed

lemma applyModifiers_snoc:
  "applyModifiers callm (ms @ [m]) st =
     (case applyModifiers callm ms st of
        Inl e \<Rightarrow> Inl e
      | Inr st' \<Rightarrow> applyModifiers callm [m] st')"
proof (induction ms arbitrary: st)
  case Nil
  show ?case by simp
next
  case (Cons m' ms)
  obtain w request ctx where st: "st = (w, request, ctx)" by (cases st)
  show ?case
  proof (cases "\<exists>f. m' = JFun f")
    case True
    then obtain f where m': "m' = JFun f" by blast
    show ?thesis
    proof (cases "callm w f request ctx")
      case (Inl e)
      then show ?thesis by (simp add: st m')
    next
      case (Inr res)
      obtain w' request' written r where res: "res = (w', request', written, r)"
        by (cases res)
      from Cons.IH [of "(w', request', object_assign written r)"] Inr res
      show ?thesis by (simp add: st m')
    qed
  next
    case False
    then have nf: "js_typeof m' \<noteq> ''function''" by (simp add: js_typeof_function)
    from Cons.IH [of "(w, request, object_assign ctx m')"] nf
    show ?thesis by (simp add: st)
  qed
qed

lemma applyModifiers_single:
  "applyModifiers callm [m] (w, request, ctx) =
     (case modifier_result callm w request ctx m of
        Inl e \<Rightarrow> Inl e
      | Inr (w', request', written, r) \<Rightarrow> Inr (w', request', object_assign written r))"
  by (cases m) (simp_all add: modifier_result_def split: sum.splits)

text \<open>
  C6, as the code has it. When no function modifier writes to the context it is
  handed, the context handler built from the modifiers \<open>m1, ..., mk\<close> computes what the
  spec describes: the modifiers merged one after the other onto the empty object, a
  function modifier called with the request and the context so far and its result
  merged, any other modifier merged as it is. For every sequence of modifiers, writing
  ones included, a later modifier overrides: after one more modifier, every field of its
  contribution has the contribution's value in the context, whatever the earlier
  modifiers had set, and the other fields are as the modifier's call has left them.
\<close>

theorem contextHandler_merges_in_order:
  "((\<forall>f w a c w' a' c' r.
        JFun f \<in> set modifiers \<and> callm w f a c = Inr (w', a', c', r) \<longrightarrow> c' = c)
      \<longrightarrow> contextHandler callm (Some modifiers) w request
            = spec_context callm modifiers w request)
   \<and> (contextHandler callm (Some modifiers) w request = Inr (w1, request1, contextSoFar)
        \<and> modifier_result callm w1 request1 contextSoFar m = Inr (w2, request2, written, r)
      \<longrightarrow> (\<exists>ctx'. contextHandler callm (Some (modifiers @ [m])) w request
                     = Inr (w2, request2, ctx')
            \<and> (\<forall>k. map_of ctx' k =
                  (if k \<in> fst ` set (own_props r) then map_of (own_props r) k
                   else map_of written k))))"
proof -
  have eq: "(\<forall>f w a c w' a' c' r.
        JFun f \<in> set modifiers \<and> callm w f a c = Inr (w', a', c', r) \<longrightarrow> c' = c)
      \<longrightarrow> contextHandler callm (Some modifiers) w request
            = spec_context callm modifiers w request"
    by (simp add: contextHandler_def spec_context_def applyModifiers_foldl)
  have step: "contextHandler callm (Some modifiers) w request = Inr (w1, request1, contextSoFar)
        \<and> modifier_result callm w1 request1 contextSoFar m = Inr (w2, request2, written, r)
      \<longrightarrow> contextHandler callm (Some (modifiers @ [m])) w request
            = Inr (w2, request2, object_assign written r)"
    by (simp add: contextHandler_def applyModifiers_snoc applyModifiers_single
        del: applyModifiers.simps)
  from eq step show ?thesis by (auto simp: map_of_object_assign)
qed

theorem contextHandler_merges_in_order_witness:
  "contextHandler (\<lambda>w f a c. Inr (w, a, c, JObj [(''locale'', JStr ''de'')]))
     (Some [JObj [(''user'', JStr ''anonymous''), (''locale'', JStr ''en'')]]) () (JObj [])
     = spec_context (\<lambda>w f a c. Inr (w, a, c, JObj [(''locale'', JStr ''de'')]))
         [JObj [(''user'', JStr ''anonymous''), (''locale'', JStr ''en'')]] () (JObj [])
   \<and> (\<exists>ctx'. contextHandler
               (\<lambda>w f a c. Inr (w, a, c, JObj [(''locale'', JStr ''de'')]))
               (Some ([JObj [(''user'', JStr ''anonymous''), (''locale'', JStr ''en'')]]
                      @ [JFun (Extern 0)]))
               () (JObj []) = Inr ((), JObj [], ctx')
            \<and> map_of ctx' ''locale'' = Some (JStr ''de'')
            \<and> map_of ctx' ''user'' = Some (JStr ''anonymous''))"
  using contextHandler_merges_in_order
    [of "[JObj [(''user'', JStr ''anonymous''), (''locale'', JStr ''en'')]]"
        "\<lambda>w f a c. Inr (w, a, c, JObj [(''locale'', JStr ''de'')])"
        "()" "JObj []" "()" "JObj []"
        "[(''user'', JStr ''anonymous''), (''locale'', JStr ''en'')]"
        "JFun (Extern 0)" "()" "JObj []"
        "[(''user'', JStr ''anonymous''), (''locale'', JStr ''en'')]"
        "JObj [(''locale'', JStr ''de'')]"]
  by (simp add: contextHandler_def object_assign_def obj_get_def modifier_result_def)

text \<open>
  C6, as the claim states it, fails: the handler hands a function modifier the context
  object itself (line 154). With the modifiers \<open>{a: 1}\<close> and
  \<open>(arg, ctx) => { ctx.x = 1; }\<close> the handler returns \<open>{a: 1, x: 1}\<close>, and merging the
  modifiers' return values onto the empty object gives \<open>{a: 1}\<close>.
\<close>

theorem contextHandler_merges_in_order_counterexample:
  "contextHandler writing_modifier (Some [JObj [(''a'', JNum 1)], JFun (Extern 0)]) () JNull
     = Inr ((), JNull, [(''a'', JNum 1), (''x'', JNum 1)])
   \<and> spec_context writing_modifier [JObj [(''a'', JNum 1)], JFun (Extern 0)] () JNull
     = Inr ((), JNull, [(''a'', JNum 1)])"
  by (simp add: contextHandler_def spec_context_def spec_merge_onto_def modifier_result_def
      writing_modifier_def object_assign_def obj_get_def)

subsection \<open>Merging one property\<close>

lemma js_typeof_undefined: "(js_typeof v = ''undefined'') = (v = JUndefined)"
  by (cases v) auto

lemma mergeKey_skipped:
  "name = [] \<or> obj_get (own_props source) name = JUndefined \<Longrightarrow>
     mergeKey ext source name st = Inr st"
  by (auto simp: mergeKey_def Let_def js_typeof_undefined)

lemma mergeKey_schema:
  assumes "name = ''schema'' \<or> name = ''schemas''"
    and "obj_get (own_props source) name \<noteq> JUndefined"
  shows "mergeKey ext source name st =
     (case schemas (fst st) of
        None \<Rightarrow> Inl TypeError
      | Some ss \<Rightarrow>
          Inr ((fst st)\<lparr>schemas := Some (ss @ valueArray_of (obj_get (own_props source) name))\<rparr>,
               snd st @ map (NonStringSchema ext name)
                          (filter (\<lambda>schemaItem. js_typeof schemaItem \<noteq> ''string'')
                             (valueArray_of (obj_get (own_props source) name)))))"
  using assms by (auto simp: mergeKey_def Let_def js_typeof_undefined)

lemma mergeKey_resolvers:
  assumes "obj_get (own_props source) ''resolvers'' \<noteq> JUndefined"
  shows "mergeKey ext source ''resolvers'' st =
     (case resolvers (fst st) of
        Some (JArr rs) \<Rightarrow>
          Inr ((fst st)\<lparr>resolvers :=
                 Some (JArr (rs @ valueArray_of (obj_get (own_props source) ''resolvers'')))\<rparr>,
               snd st)
      | _ \<Rightarrow> Inl TypeError)"
  using assms by (simp add: mergeKey_def Let_def js_typeof_undefined)

lemma mergeKey_context:
  assumes "obj_get (own_props source) ''context'' \<noteq> JUndefined"
  shows "mergeKey ext source ''context'' st =
     (case contextModifiers (fst st) of
        None \<Rightarrow> Inl TypeError
      | Some ms \<Rightarrow>
          Inr ((fst st)\<lparr>contextModifiers := Some (ms @ [obj_get (own_props source) ''context''])\<rparr>,
               snd st))"
  using assms by (simp add: mergeKey_def Let_def js_typeof_undefined)

lemma mergeKey_dataSources:
  assumes "obj_get (own_props source) ''dataSources'' \<noteq> JUndefined"
  shows "mergeKey ext source ''dataSources'' st =
     (case dataSources (fst st) of
        None \<Rightarrow> Inl TypeError
      | Some ds \<Rightarrow>
          Inr ((fst st)\<lparr>dataSources :=
                 Some (object_assign ds (obj_get (own_props source) ''dataSources''))\<rparr>,
               snd st))"
  using assms by (simp add: mergeKey_def Let_def js_typeof_undefined)

lemma mergeKey_unsupported:
  assumes "\<not> recognised name" and "name \<noteq> []"
    and "obj_get (own_props source) name \<noteq> JUndefined"
  shows "mergeKey ext source name st = Inr (fst st, snd st @ [UnsupportedOption ext name])"
  using assms by (simp add: mergeKey_def Let_def js_typeof_undefined recognised_def)


lemma name_cases:
  obtains (skip) "name = [] \<or> obj_get (own_props source) name = JUndefined"
  | (schema) "name = ''schema'' \<or> name = ''schemas''"
      "obj_get (own_props source) name \<noteq> JUndefined"
  | (resolvers) "name = ''resolvers''" "obj_get (own_props source) name \<noteq> JUndefined"
  | (ctx) "name = ''context''" "obj_get (own_props source) name \<noteq> JUndefined"
  | (sources) "name = ''dataSources''" "obj_get (own_props source) name \<noteq> JUndefined"
  | (other) "\<not> recognised name" "name \<noteq> []"
      "obj_get (own_props source) name \<noteq> JUndefined"
  unfolding recognised_def by blast

lemma mergeKey_error: "mergeKey ext source name st = Inl e \<Longrightarrow> e = TypeError"
proof (cases rule: name_cases [of name source])
  case skip
  then show "mergeKey ext source name st = Inl e \<Longrightarrow> e = TypeError"
    by (simp add: mergeKey_skipped)
next
  case schema
  then show "mergeKey ext source name st = Inl e \<Longrightarrow> e = TypeError"
    by (simp add: mergeKey_schema split: option.splits)
next
  case resolvers
  then show "mergeKey ext source name st = Inl e \<Longrightarrow> e = TypeError"
    by (simp add: mergeKey_resolvers split: option.splits jsval.splits)
next
  case ctx
  then show "mergeKey ext source name st = Inl e \<Longrightarrow> e = TypeError"
    by (simp add: mergeKey_context split: option.splits)
next
  case sources
  then show "mergeKey ext source name st = Inl e \<Longrightarrow> e = TypeError"
    by (simp add: mergeKey_dataSources split: option.splits)
next
  case other
  then show "mergeKey ext source name st = Inl e \<Longrightarrow> e = TypeError"
    by (simp add: mergeKey_unsupported)
qed



subsection \<open>The schema fragments of the aggregate\<close>


lemma object_entries_own_props: "object_entries source = Inr ps \<Longrightarrow> ps = own_props source"
  by (cases source) auto
















subsection \<open>Data sources without a destination\<close>

lemma mergeKey_keeps_no_sources:
  assumes "mergeKey ext source name st = Inr st'" and "dataSources (fst st) = None"
  shows "dataSources (fst st') = None"
proof (cases rule: name_cases [of name source])
  case skip
  with assms show ?thesis by (simp add: mergeKey_skipped)
next
  case schema
  with assms show ?thesis by (auto simp: mergeKey_schema split: option.splits)
next
  case resolvers
  with assms show ?thesis by (auto simp: mergeKey_resolvers split: option.splits jsval.splits)
next
  case ctx
  with assms show ?thesis by (auto simp: mergeKey_context split: option.splits)
next
  case sources
  with assms show ?thesis by (simp add: mergeKey_dataSources)
next
  case other
  with assms show ?thesis by (auto simp: mergeKey_unsupported)
qed

lemma mergeKeys_error: "mergeKeys ext source names st = Inl e \<Longrightarrow> e = TypeError"
proof (induction names arbitrary: st)
  case Nil
  then show ?case by simp
next
  case (Cons name names)
  show ?case
  proof (cases "mergeKey ext source name st")
    case (Inl e')
    with Cons.prems have "e' = e" by simp
    with Inl mergeKey_error show ?thesis by blast
  next
    case (Inr st1)
    with Cons.prems have "mergeKeys ext source names st1 = Inl e" by simp
    then show ?thesis by (rule Cons.IH)
  qed
qed

lemma mergeKeys_keeps_no_sources:
  assumes "mergeKeys ext source names st = Inr st'" and "dataSources (fst st) = None"
  shows "dataSources (fst st') = None"
  using assms
proof (induction names arbitrary: st)
  case Nil
  then show ?case by simp
next
  case (Cons name names)
  from Cons.prems(1) obtain st1 where
    s1: "mergeKey ext source name st = Inr st1" and
    s2: "mergeKeys ext source names st1 = Inr st'"
    by (auto split: sum.splits)
  from mergeKey_keeps_no_sources [OF s1 Cons.prems(2)] Cons.IH [OF s2] show ?case by blast
qed

lemma mergeKeys_raises:
  assumes "dataSources (fst st) = None"
    and "''dataSources'' \<in> set names"
    and "obj_get (own_props source) ''dataSources'' \<noteq> JUndefined"
  shows "mergeKeys ext source names st = Inl TypeError"
  using assms(1,2)
proof (induction names arbitrary: st)
  case Nil
  then show ?case by simp
next
  case (Cons name names)
  show ?case
  proof (cases "mergeKey ext source name st")
    case (Inl e)
    with mergeKey_error [OF Inl] show ?thesis by simp
  next
    case (Inr st1)
    have ne: "name \<noteq> ''dataSources''"
    proof
      assume "name = ''dataSources''"
      with mergeKey_dataSources [OF assms(3), of ext st] Cons.prems(1) Inr show False by simp
    qed
    with Cons.prems(2) have "''dataSources'' \<in> set names" by simp
    from Cons.IH [OF mergeKey_keeps_no_sources [OF Inr Cons.prems(1)] this] Inr
    show ?thesis by simp
  qed
qed

lemma obj_get_defined_key: "obj_get ps name \<noteq> JUndefined \<Longrightarrow> name \<in> set (map fst ps)"
proof (rule ccontr)
  assume a: "obj_get ps name \<noteq> JUndefined" and "name \<notin> set (map fst ps)"
  then have "map_of ps name = None" by (simp add: map_of_eq_None_iff)
  with a show False by (simp add: obj_get_def)
qed

lemma mergeGraphQLConfig_error: "mergeGraphQLConfig st source ext = Inl e \<Longrightarrow> e = TypeError"
  by (cases source) (auto simp: mergeGraphQLConfig_def dest: mergeKeys_error)

lemma mergeGraphQLConfig_keeps_no_sources:
  assumes "mergeGraphQLConfig st source ext = Inr st'" and "dataSources (fst st) = None"
  shows "dataSources (fst st') = None"
  using assms
  by (auto simp: mergeGraphQLConfig_def split: sum.splits dest: mergeKeys_keeps_no_sources)

lemma mergeGraphQLConfig_raises:
  assumes "dataSources (fst st) = None"
    and "obj_get (own_props source) ''dataSources'' \<noteq> JUndefined"
  shows "mergeGraphQLConfig st source ext = Inl TypeError"
proof (cases "object_entries source")
  case (Inl e)
  then show ?thesis by (cases source) (simp_all add: mergeGraphQLConfig_def)
next
  case (Inr ps)
  then have "ps = own_props source" by (rule object_entries_own_props)
  with obj_get_defined_key [OF assms(2)] have "''dataSources'' \<in> set (map fst ps)" by simp
  from mergeKeys_raises [OF assms(1) this assms(2)] Inr show ?thesis
    by (simp add: mergeGraphQLConfig_def)
qed

lemma mergeEntries_raises:
  assumes "dataSources (fst st) = None"
    and "entry \<in> set entries"
    and "obj_get (own_props (snd entry)) ''dataSources'' \<noteq> JUndefined"
  shows "mergeEntries entries st = Inl TypeError"
  using assms(1,2)
proof (induction entries arbitrary: st)
  case Nil
  then show ?case by simp
next
  case (Cons first entries)
  obtain extName extConfig where f: "first = (extName, extConfig)" by (cases first)
  show ?case
  proof (cases "mergeGraphQLConfig st extConfig extName")
    case (Inl e)
    with mergeGraphQLConfig_error [OF Inl] show ?thesis by (simp add: f)
  next
    case (Inr st1)
    have "entry \<noteq> first"
    proof
      assume "entry = first"
      with assms(3) f have "obj_get (own_props extConfig) ''dataSources'' \<noteq> JUndefined" by simp
      from mergeGraphQLConfig_raises [OF Cons.prems(1) this, of extName] Inr show False by simp
    qed
    with Cons.prems(2) have "entry \<in> set entries" by simp
    from Cons.IH [OF mergeGraphQLConfig_keeps_no_sources [OF Inr Cons.prems(1)] this] Inr
    show ?thesis by (simp add: f)
  qed
qed

text \<open>
  C10. When the base configuration has no \<open>dataSources\<close> and the stored configuration of
  some registered extension has a \<open>dataSources\<close> property that is not \<open>undefined\<close>,
  \<open>createGraphQLConfig\<close> raises a TypeError while merging: \<open>Object.assign\<close> is given an
  \<open>undefined\<close> target, and no mapping is created on the aggregate.
\<close>

theorem createGraphQLConfig_raises_without_base_dataSources:
  assumes "dataSources defaultConfig = None"
    and "entry \<in> set entries"
    and "obj_get (own_props (snd entry)) ''dataSources'' \<noteq> JUndefined"
  shows "createGraphQLConfig makeExecutableSchema mergeSchemas entries defaultConfig
           = Inl TypeError"
proof -
  have "dataSources (fst (seedConfig defaultConfig, [])) = None"
    using assms(1) by (simp add: seedConfig_def)
  from mergeEntries_raises [OF this assms(2,3)] show ?thesis
    by (simp add: createGraphQLConfig_def aggregate_def)
qed

theorem createGraphQLConfig_raises_without_base_dataSources_witness:
  "createGraphQLConfig (\<lambda>typeDefs rs. Inr (JObj [])) (\<lambda>ss directives rs. Inr (JObj []))
     [(''shop'', JObj [(''schema'', JStr ''type Query { foo: String }'')]),
      (''blog'', JObj [(''dataSources'', JObj [(''blog-api'', JObj [])])])]
     \<lparr>schemas = None, contextModifiers = None, resolvers = None, contextOpt = None,
      dataSources = None, schemaDirectives = None\<rparr>
   = Inl TypeError"
  using createGraphQLConfig_raises_without_base_dataSources
    [of "\<lparr>schemas = None, contextModifiers = None, resolvers = None, contextOpt = None,
      dataSources = None, schemaDirectives = None\<rparr>"
        "(''blog'', JObj [(''dataSources'', JObj [(''blog-api'', JObj [])])])"
        "[(''shop'', JObj [(''schema'', JStr ''type Query { foo: String }'')]),
      (''blog'', JObj [(''dataSources'', JObj [(''blog-api'', JObj [])])])]"
        "\<lambda>typeDefs rs. Inr (JObj [])" "\<lambda>ss directives rs. Inr (JObj [])"]
  by (simp add: obj_get_def)

subsection \<open>Unsupported properties\<close>

lemma mergeKey_same_value:
  "obj_get (own_props source) name = obj_get (own_props source') name \<Longrightarrow>
     mergeKey ext source name st = mergeKey ext source' name st"
  by (simp add: mergeKey_def)

lemma mergeKey_shape:
  "(\<forall>logs. mergeKey ext source name (dest, logs) = Inl TypeError)
   \<or> (\<exists>dest'. \<forall>logs. \<exists>logs'. mergeKey ext source name (dest, logs) = Inr (dest', logs')
                               \<and> set logs \<subseteq> set logs')"
proof (cases rule: name_cases [of name source])
  case skip
  then show ?thesis by (simp add: mergeKey_skipped)
next
  case schema
  then show ?thesis by (cases "schemas dest") (simp_all add: mergeKey_schema)
next
  case resolvers
  then have d: "obj_get (own_props source) ''resolvers'' \<noteq> JUndefined" by simp
  show ?thesis
  proof (cases "resolvers dest")
    case None
    then show ?thesis by (simp add: resolvers(1) mergeKey_resolvers [OF d])
  next
    case (Some r)
    then show ?thesis by (cases r) (simp_all add: resolvers(1) mergeKey_resolvers [OF d])
  qed
next
  case ctx
  then have d: "obj_get (own_props source) ''context'' \<noteq> JUndefined" by simp
  show ?thesis
    by (cases "contextModifiers dest") (simp_all add: ctx(1) mergeKey_context [OF d])
next
  case sources
  then have d: "obj_get (own_props source) ''dataSources'' \<noteq> JUndefined" by simp
  show ?thesis
    by (cases "dataSources dest") (simp_all add: sources(1) mergeKey_dataSources [OF d])
next
  case other
  then show ?thesis by (auto simp: mergeKey_unsupported)
qed

lemma mergeKey_unrecognised:
  assumes "\<not> recognised name"
  shows "\<exists>logs'. mergeKey ext source name (dest, logs) = Inr (dest, logs')"
proof (cases "name = [] \<or> obj_get (own_props source) name = JUndefined")
  case True
  then show ?thesis by (simp add: mergeKey_skipped)
next
  case False
  with assms show ?thesis by (simp add: mergeKey_unsupported)
qed

lemma obj_get_filter:
  "n \<noteq> name \<Longrightarrow> obj_get (filter (\<lambda>p. fst p \<noteq> name) ps) n = obj_get ps n"
  by (induction ps) (auto simp: obj_get_def)

lemma mergeKeys_frame:
  assumes "\<not> recognised name"
  shows "merged_config (mergeKeys ext source names (dest, logs1)) =
         merged_config (mergeKeys ext (without_key name source)
                          (filter (\<lambda>n. n \<noteq> name) names) (dest, logs2))"
proof (induction names arbitrary: dest logs1 logs2)
  case Nil
  show ?case by (simp add: merged_config_def)
next
  case (Cons n names)
  show ?case
  proof (cases "n = name")
    case True
    from mergeKey_unrecognised [OF assms, of ext source dest logs1] obtain logs' where
      "mergeKey ext source name (dest, logs1) = Inr (dest, logs')" by blast
    with True Cons.IH [of dest logs' logs2] show ?thesis by simp
  next
    case False
    have same: "\<And>st. mergeKey ext (without_key name source) n st = mergeKey ext source n st"
      by (rule mergeKey_same_value) (simp add: without_key_def obj_get_filter False)
    from mergeKey_shape [of ext source n dest] show ?thesis
    proof
      assume "\<forall>logs. mergeKey ext source n (dest, logs) = Inl TypeError"
      then show ?thesis by (simp add: False same merged_config_def)
    next
      assume "\<exists>dest'. \<forall>logs. \<exists>logs'. mergeKey ext source n (dest, logs) = Inr (dest', logs')
                               \<and> set logs \<subseteq> set logs'"
      then obtain dest' where d: "\<And>logs. \<exists>logs'. mergeKey ext source n (dest, logs) = Inr (dest', logs')"
        by blast
      from d [of logs1] obtain l1 where l1: "mergeKey ext source n (dest, logs1) = Inr (dest', l1)"
        by blast
      from d [of logs2] obtain l2 where l2: "mergeKey ext source n (dest, logs2) = Inr (dest', l2)"
        by blast
      from Cons.IH [of dest' l1 l2] show ?thesis by (simp add: False same l1 l2)
    qed
  qed
qed

lemma mergeKeys_logs_grow:
  "mergeKeys ext source names (dest, logs) = Inr (dest', logs') \<Longrightarrow> set logs \<subseteq> set logs'"
proof (induction names arbitrary: dest logs)
  case Nil
  then show ?case by simp
next
  case (Cons n names)
  from mergeKey_shape [of ext source n dest] Cons.prems obtain d1 l1 where
    s1: "mergeKey ext source n (dest, logs) = Inr (d1, l1)" and sub: "set logs \<subseteq> set l1"
    by (fastforce split: sum.splits)
  with Cons.prems have "mergeKeys ext source names (d1, l1) = Inr (dest', logs')" by simp
  from Cons.IH [OF this] sub show ?case by blast
qed

lemma mergeKeys_warns:
  assumes "\<not> recognised name" and "name \<noteq> []"
    and "obj_get (own_props source) name \<noteq> JUndefined"
  shows "mergeKeys ext source names (dest, logs) = Inr (dest', logs') \<Longrightarrow> name \<in> set names
           \<Longrightarrow> UnsupportedOption ext name \<in> set logs'"
proof (induction names arbitrary: dest logs)
  case Nil
  then show ?case by simp
next
  case (Cons n names)
  show ?case
  proof (cases "n = name")
    case True
    from mergeKey_unsupported [OF assms, of ext "(dest, logs)"] True Cons.prems(1)
    have "mergeKeys ext source names (dest, logs @ [UnsupportedOption ext name]) = Inr (dest', logs')"
      by simp
    from mergeKeys_logs_grow [OF this] show ?thesis by auto
  next
    case False
    from Cons.prems(1) obtain d1 l1 where
      "mergeKey ext source n (dest, logs) = Inr (d1, l1)"
      "mergeKeys ext source names (d1, l1) = Inr (dest', logs')"
      by (auto split: sum.splits)
    from Cons.IH [OF this(2)] Cons.prems(2) False show ?thesis by simp
  qed
qed

text \<open>
  C9, as the code has it. For a source with a property that has no merge rule, the
  configuration after the merge (or the error the merge raises) is that of merging the
  source without the property: the aggregate is unchanged with respect to it. A merge
  that completes has logged the warning for the property when its name is not empty
  and its value is not \<open>undefined\<close>.
\<close>

theorem mergeGraphQLConfig_unsupported_key:
  assumes "name \<in> fst ` set (own_props source)" and "\<not> recognised name"
  shows "merged_config (mergeGraphQLConfig (dest, logs) source ext) =
           merged_config (mergeGraphQLConfig (dest, logs) (without_key name source) ext)
       \<and> (name \<noteq> [] \<and> obj_get (own_props source) name \<noteq> JUndefined
            \<and> mergeGraphQLConfig (dest, logs) source ext = Inr (dest', logs')
          \<longrightarrow> UnsupportedOption ext name \<in> set logs')"
proof -
  from assms(1) have oe: "object_entries source = Inr (own_props source)"
    by (cases source) auto
  have keys: "map fst (filter (\<lambda>p. fst p \<noteq> name) (own_props source))
                = filter (\<lambda>n. n \<noteq> name) (map fst (own_props source))"
    by (simp add: filter_map comp_def)
  have frame: "merged_config (mergeGraphQLConfig (dest, logs) source ext) =
           merged_config (mergeGraphQLConfig (dest, logs) (without_key name source) ext)"
    using mergeKeys_frame [OF assms(2), of ext source "map fst (own_props source)" dest logs logs]
    by (simp add: mergeGraphQLConfig_def oe without_key_def keys)
  have warn: "name \<noteq> [] \<and> obj_get (own_props source) name \<noteq> JUndefined
            \<and> mergeGraphQLConfig (dest, logs) source ext = Inr (dest', logs')
          \<longrightarrow> UnsupportedOption ext name \<in> set logs'"
    using mergeKeys_warns [OF assms(2), of source ext "map fst (own_props source)" dest logs dest' logs']
      assms(1)
    by (auto simp: mergeGraphQLConfig_def oe)
  from frame warn show ?thesis by blast
qed

theorem mergeGraphQLConfig_unsupported_key_witness:
  "merged_config
     (mergeGraphQLConfig
        (\<lparr>schemas = Some [], contextModifiers = Some [], resolvers = Some (JArr []),
          contextOpt = None, dataSources = None, schemaDirectives = None\<rparr>, [])
        (JObj [(''schema'', JStr ''type Query''), (''tracing'', JBool True)]) ''shop'')
   = merged_config
       (mergeGraphQLConfig
          (\<lparr>schemas = Some [], contextModifiers = Some [], resolvers = Some (JArr []),
            contextOpt = None, dataSources = None, schemaDirectives = None\<rparr>, [])
          (JObj [(''schema'', JStr ''type Query'')]) ''shop'')
   \<and> UnsupportedOption ''shop'' ''tracing'' \<in> set [UnsupportedOption ''shop'' ''tracing'']"
proof -
  let ?d = "\<lparr>schemas = Some [], contextModifiers = Some [], resolvers = Some (JArr []),
          contextOpt = None, dataSources = None, schemaDirectives = None\<rparr>"
  let ?s = "JObj [(''schema'', JStr ''type Query''), (''tracing'', JBool True)]"
  have e: "mergeGraphQLConfig (?d, []) ?s ''shop'' =
             Inr (?d\<lparr>schemas := Some [JStr ''type Query'']\<rparr>,
                  [UnsupportedOption ''shop'' ''tracing''])"
    by (simp add: mergeGraphQLConfig_def mergeKey_def obj_get_def valueArray_of_def)
  have w: "without_key ''tracing'' ?s = JObj [(''schema'', JStr ''type Query'')]"
    by (simp add: without_key_def)
  have k: "''tracing'' \<in> fst ` set (own_props ?s)" "\<not> recognised ''tracing''"
    by (simp_all add: recognised_def)
  from mergeGraphQLConfig_unsupported_key
         [OF k, of ?d "[]" "''shop''" "?d\<lparr>schemas := Some [JStr ''type Query'']\<rparr>"
            "[UnsupportedOption ''shop'' ''tracing'']"] e w
  show ?thesis by (simp add: obj_get_def)
qed

text \<open>
  C9, as the claim states it, fails: a source whose only property is the unsupported
  \<open>tracing\<close> with the value \<open>undefined\<close> is merged without any warning, the guard of
  line 182 returning before the \<open>switch\<close>.
\<close>

theorem mergeGraphQLConfig_unsupported_key_counterexample:
  "''tracing'' \<in> fst ` set (own_props (JObj [(''tracing'', JUndefined)]))
   \<and> \<not> recognised ''tracing''
   \<and> mergeGraphQLConfig
        (\<lparr>schemas = Some [], contextModifiers = Some [], resolvers = Some (JArr []),
          contextOpt = None, dataSources = None, schemaDirectives = None\<rparr>, [])
        (JObj [(''tracing'', JUndefined)]) ''shop''
      = Inr (\<lparr>schemas = Some [], contextModifiers = Some [], resolvers = Some (JArr []),
              contextOpt = None, dataSources = None, schemaDirectives = None\<rparr>, [])"
  by (simp add: recognised_def mergeGraphQLConfig_def mergeKey_def obj_get_def)


subsection \<open>The other properties of the aggregate\<close>










subsection \<open>Registering under an identifier that is there\<close>







end
